theory Spec2Isabelle
  imports Main "HOL-Library.Word" "HOL-Library.Signed_Division"
begin

unbundle bit_operations_syntax

section \<open>The proof-key subsystem of wsd/ProofKey.cpp\<close>

text \<open>
  The file is glue code around the Poco library and the C++ standard library. Each library
  operation the claims depend on is written out below as a function of its own, named after
  the library operation, so that the functions of ProofKey.cpp can be read next to their
  source. Raw bytes (\<^verbatim>\<open>std::vector<unsigned char>\<close>) are \<open>byte list\<close>, a
  \<^verbatim>\<open>std::string\<close> is a \<open>string\<close> (a list of 8-bit characters).
\<close>

subsection \<open>Build and host parameters, errors\<close>

type_synonym byte = "8 word"

datatype ByteOrder = LittleEndian | BigEndian

text \<open>
  What the preprocessor fixes: the host byte order (\<^verbatim>\<open>__BYTE_ORDER__\<close>), whether
  \<^verbatim>\<open>assert\<close> is compiled out (\<^verbatim>\<open>NDEBUG\<close>), and the configuration directory
  (\<^verbatim>\<open>LOOLWSD_CONFIGDIR\<close>, from config.h).
\<close>

record Platform =
  byte_order :: ByteOrder
  NDEBUG :: bool
  LOOLWSD_CONFIGDIR :: string

text \<open>
  \<open>URISyntaxException\<close> is thrown by \<^verbatim>\<open>Poco::URI::decode\<close>; \<open>AssertionFailed\<close> is the
  abort of a failing \<^verbatim>\<open>assert\<close>; \<open>IndeterminateRead\<close> and \<open>NullDereference\<close> stand for
  reading memory that was never written and for \<^verbatim>\<open>*m_pKey\<close> on a null pointer.
\<close>

datatype error = URISyntaxException | AssertionFailed | IndeterminateRead | NullDereference

definition assert_fails :: "Platform \<Rightarrow> bool \<Rightarrow> bool" where
  "assert_fails P cond = (if NDEBUG P then False else \<not> cond)"

definition char_of_byte :: "byte \<Rightarrow> char" where
  "char_of_byte b = char_of (unat b)"

subsection \<open>getBytesLE and RSA2CapiBlob\<close>

definition le_bytes32 :: "32 word \<Rightarrow> byte list" where
  "le_bytes32 x = [ucast x, ucast (drop_bit 8 x), ucast (drop_bit 16 x), ucast (drop_bit 24 x)]"

text \<open>The object representation of a \<^verbatim>\<open>std::uint32_t\<close>: its bytes in system order.\<close>

definition object_bytes32 :: "ByteOrder \<Rightarrow> 32 word \<Rightarrow> byte list" where
  "object_bytes32 bo x =
     (case bo of LittleEndian \<Rightarrow> le_bytes32 x | BigEndian \<Rightarrow> rev (le_bytes32 x))"

text \<open>
  \<^verbatim>\<open>getBytesLE(bytesInSystemOrder, n)\<close>: \<^verbatim>\<open>copy_n\<close> to \<^verbatim>\<open>ret.begin()\<close> on a
  little-endian host, to \<^verbatim>\<open>ret.rbegin()\<close> otherwise.
\<close>

definition getBytesLE :: "ByteOrder \<Rightarrow> byte list \<Rightarrow> nat \<Rightarrow> byte list" where
  "getBytesLE bo bytesInSystemOrder n =
     (case bo of
        LittleEndian \<Rightarrow> take n bytesInSystemOrder
      | BigEndian \<Rightarrow> rev (take n bytesInSystemOrder))"

text \<open>The template \<^verbatim>\<open>getBytesLE<std::uint32_t>(x)\<close>, with \<^verbatim>\<open>sizeof(x) = 4\<close>.\<close>

definition getBytesLE_uint32 :: "ByteOrder \<Rightarrow> 32 word \<Rightarrow> byte list" where
  "getBytesLE_uint32 bo x = getBytesLE bo (object_bytes32 bo x) 4"

definition capi_header :: "byte list" where
  "capi_header = [0x06, 0x02, 0x00, 0x00, 0x00, 0xA4, 0x00, 0x00, 0x52, 0x53, 0x41, 0x31]"

text \<open>
  \<^verbatim>\<open>modulus.size() * 8\<close> is converted to \<^verbatim>\<open>std::uint32_t\<close> by the template argument:
  \<open>word_of_nat\<close> reduces it modulo \<open>2 ^ 32\<close>.
\<close>

definition RSA2CapiBlob :: "ByteOrder \<Rightarrow> byte list \<Rightarrow> byte list \<Rightarrow> byte list" where
  "RSA2CapiBlob bo modulus exponent =
     (let capiBlob = capi_header;
          bitLen = getBytesLE_uint32 bo (word_of_nat (length modulus * 8));
          capiBlob = capiBlob @ bitLen;
          capiBlob = capiBlob @ rev exponent;
          capiBlob = capiBlob @ rev modulus
      in capiBlob)"

text \<open>Reading a byte sequence as a little-endian and as a big-endian number.\<close>

fun le_decode :: "byte list \<Rightarrow> nat" where
  "le_decode [] = 0"
| "le_decode (b # bs) = unat b + 256 * le_decode bs"

definition be_decode :: "string \<Rightarrow> nat" where
  "be_decode s = foldl (\<lambda>acc c. 256 * acc + of_char c) 0 s"

subsection \<open>Poco::Base64Encoder behind Poco::OutputLineEndingConverter\<close>

definition base64_alphabet :: string where
  "base64_alphabet = ''ABCDEFGHIJKLMNOPQRSTUVWXYZabcdefghijklmnopqrstuvwxyz0123456789+/''"

definition OUT_ENCODING :: "byte \<Rightarrow> char" where
  "OUT_ENCODING idx = base64_alphabet ! unat idx"

definition CR :: char where
  "CR = CHR 0x0D"

definition LF :: char where
  "LF = CHR 0x0A"

text \<open>
  \<^verbatim>\<open>Poco::Base64EncoderBuf\<close>: every three input characters give four output characters;
  once \<open>pos\<close> reaches the line length (72 by default) a CR LF pair is written;
  \<^verbatim>\<open>close()\<close> pads a last group of one or two characters with \<^verbatim>\<open>=\<close>.
\<close>

fun Base64Encoder :: "nat \<Rightarrow> nat \<Rightarrow> string \<Rightarrow> string" where
  "Base64Encoder lineLength pos (c0 # c1 # c2 # rest) =
     (let g0 = (of_char c0 :: byte); g1 = (of_char c1 :: byte); g2 = (of_char c2 :: byte);
          quad = [OUT_ENCODING (drop_bit 2 g0),
                  OUT_ENCODING (push_bit 4 (g0 AND 0x03) OR drop_bit 4 g1),
                  OUT_ENCODING (push_bit 2 (g1 AND 0x0F) OR drop_bit 6 g2),
                  OUT_ENCODING (g2 AND 0x3F)];
          pos = pos + 4
      in if lineLength > 0 \<and> pos \<ge> lineLength
         then quad @ [CR, LF] @ Base64Encoder lineLength 0 rest
         else quad @ Base64Encoder lineLength pos rest)"
| "Base64Encoder lineLength pos [c0, c1] =
     (let g0 = (of_char c0 :: byte); g1 = (of_char c1 :: byte); g2 = (0 :: byte)
      in [OUT_ENCODING (drop_bit 2 g0),
          OUT_ENCODING (push_bit 4 (g0 AND 0x03) OR drop_bit 4 g1),
          OUT_ENCODING (push_bit 2 (g1 AND 0x0F) OR drop_bit 6 g2),
          CHR ''=''])"
| "Base64Encoder lineLength pos [c0] =
     (let g0 = (of_char c0 :: byte); g1 = (0 :: byte)
      in [OUT_ENCODING (drop_bit 2 g0),
          OUT_ENCODING (push_bit 4 (g0 AND 0x03) OR drop_bit 4 g1),
          CHR ''='', CHR ''=''])"
| "Base64Encoder lineLength pos [] = []"

text \<open>
  \<^verbatim>\<open>Poco::LineEndingConverterStreamBuf::writeToDevice\<close> for each character: a CR, or an LF
  that does not follow a CR, is replaced by the configured line ending; every other
  character is passed on.
\<close>

fun LineEndingConverter :: "string \<Rightarrow> char \<Rightarrow> string \<Rightarrow> string" where
  "LineEndingConverter newLine lastChar [] = []"
| "LineEndingConverter newLine lastChar (c # cs) =
     (if c = CR \<or> (c = LF \<and> lastChar \<noteq> CR) then newLine else [])
     @ (if c \<noteq> LF \<and> c \<noteq> CR then [c] else [])
     @ LineEndingConverter newLine c cs"

definition BytesToBase64 :: "byte list \<Rightarrow> string" where
  "BytesToBase64 bytes =
     LineEndingConverter [] (CHR 0x00) (Base64Encoder 72 0 (map char_of_byte bytes))"

subsection \<open>Proof::DotNetTicks\<close>

text \<open>
  The instant is its count of nanoseconds since the Unix epoch, a signed 64-bit integer;
  \<^verbatim>\<open>from_time_t(0)\<close> has count 0. C++ division truncates towards zero (\<open>sdiv\<close>);
  the addition wraps at 64 bits.
\<close>

definition DotNetTicks :: "64 word \<Rightarrow> 64 word" where
  "DotNetTicks utc =
     (let aUnxEpoch = (0 :: 64 word);
          duration_ns = utc - aUnxEpoch
      in word_of_int (sint duration_ns sdiv 100) + 621355968000000000)"

subsection \<open>Poco::URI::decode\<close>

definition hex_digit :: "char \<Rightarrow> nat option" where
  "hex_digit c =
     (let n = (of_char c :: nat) in
      if of_char CHR ''0'' \<le> n \<and> n \<le> of_char CHR ''9'' then Some (n - of_char CHR ''0'')
      else if of_char CHR ''A'' \<le> n \<and> n \<le> of_char CHR ''F'' then Some (n - of_char CHR ''A'' + 10)
      else if of_char CHR ''a'' \<le> n \<and> n \<le> of_char CHR ''f'' then Some (n - of_char CHR ''a'' + 10)
      else None)"

text \<open>
  \<^verbatim>\<open>Poco::URI::decode(str, decodedStr)\<close>: a percent sign must be followed by two
  hexadecimal digits, which give one character; anything else after a percent sign throws
  \<^verbatim>\<open>URISyntaxException\<close>. Every other character is copied.
\<close>

fun URI_decode :: "string \<Rightarrow> error + string" where
  "URI_decode [] = Inr []"
| "URI_decode (c # it) =
     (if c = CHR ''%'' then
        (case it of
           [] \<Rightarrow> Inl URISyntaxException
         | [hi] \<Rightarrow> Inl URISyntaxException
         | hi # lo # it' \<Rightarrow>
             (case hex_digit hi of
                None \<Rightarrow> Inl URISyntaxException
              | Some h \<Rightarrow>
                  (case hex_digit lo of
                     None \<Rightarrow> Inl URISyntaxException
                   | Some l \<Rightarrow>
                       (case URI_decode it' of
                          Inl e \<Rightarrow> Inl e
                        | Inr decodedStr \<Rightarrow> Inr (char_of (h * 16 + l) # decodedStr)))))
      else
        (case URI_decode it of
           Inl e \<Rightarrow> Inl e
         | Inr decodedStr \<Rightarrow> Inr (c # decodedStr)))"

subsection \<open>Poco::Buffer and Poco::MemoryBinaryWriter\<close>

text \<open>
  \<^verbatim>\<open>Poco::Buffer<char>\<close> owns \<open>b_capacity\<close> cells of which the first \<open>b_used\<close> are its
  content: \<^verbatim>\<open>size()\<close> is \<open>b_used\<close> and \<^verbatim>\<open>end()\<close> is \<^verbatim>\<open>begin() + size()\<close>. A cell
  that was never written is \<open>None\<close>. \<^verbatim>\<open>resize(n)\<close> reallocates only when \<open>n\<close> exceeds
  the capacity and always sets the size to \<open>n\<close>.
\<close>

record Buffer =
  b_capacity :: nat
  b_used :: nat
  b_ptr :: "char option list"

definition Buffer_ctor :: "nat \<Rightarrow> Buffer" where
  "Buffer_ctor len = \<lparr>b_capacity = len, b_used = len, b_ptr = replicate len None\<rparr>"

definition Buffer_resize :: "Buffer \<Rightarrow> nat \<Rightarrow> Buffer" where
  "Buffer_resize b newCapacity =
     (if newCapacity > b_capacity b
      then \<lparr>b_capacity = newCapacity, b_used = newCapacity,
            b_ptr = take (b_used b) (b_ptr b) @ replicate (newCapacity - b_used b) None\<rparr>
      else b\<lparr>b_used := newCapacity\<rparr>)"

definition Buffer_size :: "Buffer \<Rightarrow> nat" where
  "Buffer_size b = b_used b"

text \<open>\<^verbatim>\<open>std::string(buffer.begin(), buffer.end())\<close>.\<close>

definition Buffer_range :: "Buffer \<Rightarrow> error + string" where
  "Buffer_range b =
     (case those (take (b_used b) (b_ptr b)) of
        None \<Rightarrow> Inl IndeterminateRead
      | Some s \<Rightarrow> Inr s)"

text \<open>
  \<^verbatim>\<open>Poco::MemoryBinaryWriter(buffer, byteOrder)\<close> is a \<^verbatim>\<open>BinaryWriter\<close> on a
  \<^verbatim>\<open>MemoryOutputStream\<close> over the raw cells \<^verbatim>\<open>buffer.begin()\<close> \<dots>
  \<^verbatim>\<open>buffer.begin() + buffer.capacity()\<close>. The stream keeps its own write position; it has
  no access to the size field of the buffer. A write that does not fit stores what fits and
  puts the stream into its failed state, in which further writes do nothing.
\<close>

record MemoryBinaryWriter =
  w_data :: Buffer
  w_pos :: nat
  w_good :: bool

definition MemoryBinaryWriter_ctor :: "Buffer \<Rightarrow> MemoryBinaryWriter" where
  "MemoryBinaryWriter_ctor data = \<lparr>w_data = data, w_pos = 0, w_good = True\<rparr>"

definition ostream_write :: "string \<Rightarrow> MemoryBinaryWriter \<Rightarrow> MemoryBinaryWriter" where
  "ostream_write s w =
     (if \<not> w_good w then w
      else
        let d = w_data w;
            room = b_capacity d - w_pos w;
            k = min (length s) room
        in w\<lparr>w_data := d\<lparr>b_ptr := take (w_pos w) (b_ptr d) @ map Some (take k s)
                                        @ drop (w_pos w + k) (b_ptr d)\<rparr>,
              w_pos := w_pos w + k,
              w_good := (length s \<le> room)\<rparr>)"

definition be_bytes32 :: "32 word \<Rightarrow> byte list" where
  "be_bytes32 x = [ucast (drop_bit 24 x), ucast (drop_bit 16 x), ucast (drop_bit 8 x), ucast x]"

definition be_bytes64 :: "64 word \<Rightarrow> byte list" where
  "be_bytes64 x =
     [ucast (drop_bit 56 x), ucast (drop_bit 48 x), ucast (drop_bit 40 x), ucast (drop_bit 32 x),
      ucast (drop_bit 24 x), ucast (drop_bit 16 x), ucast (drop_bit 8 x), ucast x]"

text \<open>\<^verbatim>\<open>writer << int32_t\<close> and \<^verbatim>\<open>writer << int64_t\<close> in \<^verbatim>\<open>NETWORK_BYTE_ORDER\<close>.\<close>

definition write_Int32 :: "32 word \<Rightarrow> MemoryBinaryWriter \<Rightarrow> MemoryBinaryWriter" where
  "write_Int32 v w = ostream_write (map char_of_byte (be_bytes32 v)) w"

definition write_Int64 :: "64 word \<Rightarrow> MemoryBinaryWriter \<Rightarrow> MemoryBinaryWriter" where
  "write_Int64 v w = ostream_write (map char_of_byte (be_bytes64 v)) w"

text \<open>
  \<^verbatim>\<open>BinaryWriter::write7BitEncoded(UInt32)\<close>: seven bits at a time, least significant
  first, the high bit of a byte telling that another byte follows.
\<close>

function seven_bit_encoded :: "32 word \<Rightarrow> byte list" where
  "seven_bit_encoded v =
     (let c = (ucast (v AND 0x7F) :: byte);
          v' = drop_bit 7 v
      in if v' \<noteq> 0 then (c OR 0x80) # seven_bit_encoded v' else [c])"
  by pat_completeness auto
termination
proof (relation "measure unat")
  show "wf (measure unat)" by simp
next
  fix v :: "32 word" and c :: byte and v'
  assume v': "v' = drop_bit 7 v" and nz: "v' \<noteq> 0"
  have eq: "unat v' = unat v div 128"
    unfolding v' unat_drop_bit_eq by (simp add: drop_bit_eq_div)
  from nz have "unat v' \<noteq> 0" by (simp only: unat_eq_0 not_False_eq_True)
  with eq have "unat v \<noteq> 0" by auto
  then have "unat v div 128 < unat v" by (intro div_less_dividend) auto
  with eq show "(v', v) \<in> measure unat" by simp
qed

declare seven_bit_encoded.simps [simp del]

definition write7BitEncoded :: "32 word \<Rightarrow> MemoryBinaryWriter \<Rightarrow> MemoryBinaryWriter" where
  "write7BitEncoded v w = fold (\<lambda>c. ostream_write [char_of_byte c]) (seven_bit_encoded v) w"

text \<open>
  \<^verbatim>\<open>writer << std::string\<close>: \<^verbatim>\<open>BinaryWriter::operator<<(const std::string&)\<close> writes the
  length of the string, 7-bit encoded, and then its characters (\<^verbatim>\<open>writeRaw\<close> is the
  operation that writes the characters alone).
\<close>

definition write_string :: "string \<Rightarrow> MemoryBinaryWriter \<Rightarrow> MemoryBinaryWriter" where
  "write_string s w = ostream_write s (write7BitEncoded (word_of_nat (length s)) w)"

subsection \<open>Proof::GetProof\<close>

definition INT32_MAX :: nat where
  "INT32_MAX = 2147483647"

text \<open>The buffer and the writer of \<^verbatim>\<open>Proof::GetProof\<close>, after the last insertion.\<close>

definition GetProof_writer :: "string \<Rightarrow> string \<Rightarrow> 64 word \<Rightarrow> MemoryBinaryWriter" where
  "GetProof_writer decoded_access_token uri ticks =
     (let size = 4 + length decoded_access_token + 4 + length uri + 4 + 8;
          buffer = Buffer_ctor size;
          buffer = Buffer_resize buffer 0;
          writer = MemoryBinaryWriter_ctor buffer;
          writer = write_Int32 (word_of_nat (length decoded_access_token)) writer;
          writer = write_string decoded_access_token writer;
          writer = write_Int32 (word_of_nat (length uri)) writer;
          writer = write_string uri writer;
          writer = write_Int32 8 writer;
          writer = write_Int64 ticks writer
      in writer)"

definition Proof_GetProof :: "Platform \<Rightarrow> string \<Rightarrow> string \<Rightarrow> 64 word \<Rightarrow> error + string" where
  "Proof_GetProof P access_token uri ticks =
     (case URI_decode access_token of
        Inl e \<Rightarrow> Inl e
      | Inr decoded_access_token \<Rightarrow>
          if assert_fails P (length decoded_access_token \<le> INT32_MAX) then Inl AssertionFailed
          else if assert_fails P (length uri \<le> INT32_MAX) then Inl AssertionFailed
          else
            let size = 4 + length decoded_access_token + 4 + length uri + 4 + 8;
                buffer = w_data (GetProof_writer decoded_access_token uri ticks)
            in if assert_fails P (Buffer_size buffer = size) then Inl AssertionFailed
               else Buffer_range buffer)"

text \<open>
  The layout that the assertion \<^verbatim>\<open>buffer.size() == size\<close> of \<^verbatim>\<open>Proof::GetProof\<close>
  and the specification describe, for comparison with \<open>Proof_GetProof\<close>.
\<close>

definition proof_layout :: "string \<Rightarrow> string \<Rightarrow> 64 word \<Rightarrow> string" where
  "proof_layout decoded_access_token uri ticks =
     map char_of_byte (be_bytes32 (word_of_nat (length decoded_access_token)))
     @ decoded_access_token
     @ map char_of_byte (be_bytes32 (word_of_nat (length uri)))
     @ uri
     @ map char_of_byte (be_bytes32 8)
     @ map char_of_byte (be_bytes64 ticks)"

subsection \<open>Keys and Poco::Crypto::RSADigestEngine\<close>

record RSAKey =
  modulus :: "byte list"
  encryptionExponent :: "byte list"

text \<open>
  The two computations of the cryptographic library behind the engine are parameters: the
  SHA-256 digest of a string of bytes, and the RSA signature of a digest under the private
  part of a key.
\<close>

record Crypto =
  SHA256 :: "string \<Rightarrow> byte list"
  RSA_sign :: "RSAKey \<Rightarrow> byte list \<Rightarrow> byte list"

text \<open>
  The engine object: the bytes fed to the digest context since it was last finished, the
  stored digest and the stored signature. \<^verbatim>\<open>digest()\<close> and \<^verbatim>\<open>signature()\<close> compute
  only while the stored value is empty and return the stored value otherwise; only
  \<^verbatim>\<open>reset()\<close>, which ProofKey.cpp never calls, clears them.
\<close>

record RSADigestEngine =
  e_key :: RSAKey
  e_engine :: string
  e_digest :: "byte list"
  e_signature :: "byte list"

definition RSADigestEngine_ctor :: "RSAKey \<Rightarrow> RSADigestEngine" where
  "RSADigestEngine_ctor key = \<lparr>e_key = key, e_engine = [], e_digest = [], e_signature = []\<rparr>"

definition RSADigestEngine_update :: "RSADigestEngine \<Rightarrow> string \<Rightarrow> RSADigestEngine" where
  "RSADigestEngine_update e data = e\<lparr>e_engine := e_engine e @ data\<rparr>"

definition RSADigestEngine_digest :: "Crypto \<Rightarrow> RSADigestEngine \<Rightarrow> RSADigestEngine" where
  "RSADigestEngine_digest L e =
     (if e_digest e = [] then e\<lparr>e_digest := SHA256 L (e_engine e), e_engine := []\<rparr> else e)"

definition RSADigestEngine_signature ::
  "Crypto \<Rightarrow> RSADigestEngine \<Rightarrow> byte list \<times> RSADigestEngine" where
  "RSADigestEngine_signature L e =
     (if e_signature e = [] then
        let e = RSADigestEngine_digest L e;
            e = e\<lparr>e_signature := RSA_sign L (e_key e) (e_digest e)\<rparr>
        in (e_signature e, e)
      else (e_signature e, e))"

subsection \<open>The class Proof\<close>

record Proof =
  m_pKey :: "RSAKey option"
  m_aAttribs :: "(string \<times> string) list"

text \<open>
  What the process finds outside itself at one call: whether the key file exists, what
  \<^verbatim>\<open>new Poco::Crypto::RSAKey("", path)\<close> does (it returns a key or throws), and the
  reading of the system clock in nanoseconds since the Unix epoch.
\<close>

datatype key_load =
  Loaded RSAKey
| Throws_Poco_Exception string
| Throws_std_exception string
| Throws_unknown

record Environment =
  key_file_exists :: bool
  load_RSAKey :: key_load
  system_clock_now :: "64 word"

text \<open>\<^verbatim>\<open>Proof::ProofKeyPath\<close>: the path, and the warning it logs when the file is missing.\<close>

definition ProofKeyPath :: "Platform \<Rightarrow> Environment \<Rightarrow> string \<times> string list" where
  "ProofKeyPath P env =
     (let keyPath = LOOLWSD_CONFIGDIR P @ ''/proof_key'' in
      if \<not> key_file_exists env then
        (let msg = ''Could not find '' @ keyPath
               @ [LF] @ ''No proof-key will be present in discovery.''
               @ [LF] @ ''Generate an RSA key using this command line:''
               @ [LF] @ ''    ssh-keygen -t rsa -N '' @ [CHR 0x22, CHR 0x22] @ '' -f ''
               @ [CHR 0x22] @ keyPath @ [CHR 0x22]
         in (keyPath, [msg]))
      else (keyPath, []))"

text \<open>
  The constructor \<^verbatim>\<open>Proof::Proof\<close>: the three \<^verbatim>\<open>catch\<close> clauses log and fall through
  to \<^verbatim>\<open>return nullptr\<close>; the body fills \<open>m_aAttribs\<close> when the key is there. The second
  component is what was logged.
\<close>

definition Proof_ctor :: "Platform \<Rightarrow> Environment \<Rightarrow> Proof \<times> string list" where
  "Proof_ctor P env =
     (let (keyPath, warnings) = ProofKeyPath P env;
          (pKey, errors) =
            (case load_RSAKey env of
               Loaded key \<Rightarrow> (Some key, [])
             | Throws_Poco_Exception displayText \<Rightarrow>
                 (None, [''Could not open proof RSA key: '' @ displayText])
             | Throws_std_exception what \<Rightarrow>
                 (None, [''Could not open proof RSA key: '' @ what])
             | Throws_unknown \<Rightarrow>
                 (None, [''Could not open proof RSA key: unknown exception'']));
          aAttribs =
            (case pKey of
               None \<Rightarrow> []
             | Some key \<Rightarrow>
                 let m = modulus key;
                     e = encryptionExponent key;
                     capiBlob = RSA2CapiBlob (byte_order P) m e
                 in [(''value'', BytesToBase64 capiBlob),
                     (''modulus'', BytesToBase64 m),
                     (''exponent'', BytesToBase64 e)])
      in (\<lparr>m_pKey = pKey, m_aAttribs = aAttribs\<rparr>, warnings @ errors))"

text \<open>
  \<^verbatim>\<open>Proof::SignProof\<close>. Its engine is a function-local \<^verbatim>\<open>static\<close>: it is constructed
  from \<^verbatim>\<open>*m_pKey\<close> by the first call and kept, with its state, for all later calls. The
  engine is therefore passed in and returned.
\<close>

definition SignProof ::
  "Crypto \<Rightarrow> Platform \<Rightarrow> Proof \<Rightarrow> RSADigestEngine option \<Rightarrow> string
     \<Rightarrow> (error + string) \<times> RSADigestEngine option" where
  "SignProof L P this digestEngine proof =
     (if assert_fails P (m_pKey this \<noteq> None) then (Inl AssertionFailed, digestEngine)
      else
        (case (case digestEngine of
                 Some e \<Rightarrow> Some e
               | None \<Rightarrow> map_option RSADigestEngine_ctor (m_pKey this)) of
           None \<Rightarrow> (Inl NullDereference, digestEngine)
         | Some e \<Rightarrow>
             let e = RSADigestEngine_update e proof;
                 (digest, e) = RSADigestEngine_signature L e;
                 ostr = LineEndingConverter [] (CHR 0x00)
                          (Base64Encoder 72 0 (map char_of_byte digest))
             in (Inr ostr, Some e)))"

text \<open>\<^verbatim>\<open>std::to_string(int64_t)\<close>: the decimal digits, after a minus sign when negative.\<close>

function decimal :: "nat \<Rightarrow> string" where
  "decimal n =
     (if n < 10 then [char_of (48 + n)]
      else decimal (n div 10) @ [char_of (48 + n mod 10)])"
  by pat_completeness auto
termination
  by (relation "measure id") auto

declare decimal.simps [simp del]

definition to_string :: "64 word \<Rightarrow> string" where
  "to_string x =
     (let v = sint x in
      if v < 0 then CHR ''-'' # decimal (nat (- v)) else decimal (nat v))"

text \<open>
  The state of the process that outlives a call: the two function-local statics, the
  \<^verbatim>\<open>Proof\<close> object of \<^verbatim>\<open>GetProof()\<close> and the engine of \<^verbatim>\<open>Proof::SignProof\<close> (each
  \<open>None\<close> until first constructed), the log, and a count of the evaluations of
  \<^verbatim>\<open>new Poco::Crypto::RSAKey\<close>.
\<close>

record Process =
  s_proof :: "Proof option"
  s_digestEngine :: "RSADigestEngine option"
  s_key_loads :: nat
  s_log :: "string list"

definition Process_start :: Process where
  "Process_start = \<lparr>s_proof = None, s_digestEngine = None, s_key_loads = 0, s_log = []\<rparr>"

text \<open>The accessor \<^verbatim>\<open>GetProof()\<close> with its \<^verbatim>\<open>static const Proof proof\<close>.\<close>

definition GetProof :: "Platform \<Rightarrow> Environment \<Rightarrow> Process \<Rightarrow> Proof \<times> Process" where
  "GetProof P env st =
     (case s_proof st of
        Some p \<Rightarrow> (p, st)
      | None \<Rightarrow>
          let (p, msgs) = Proof_ctor P env
          in (p, st\<lparr>s_proof := Some p,
                    s_key_loads := s_key_loads st + 1,
                    s_log := s_log st @ msgs\<rparr>))"

text \<open>
  \<^verbatim>\<open>Proof::GetProofHeaders\<close>. An exception or a failed assertion inside
  \<^verbatim>\<open>GetProof\<close> or \<^verbatim>\<open>SignProof\<close> leaves the function, and \<open>vec\<close> is lost.
\<close>

definition Proof_GetProofHeaders ::
  "Crypto \<Rightarrow> Platform \<Rightarrow> Proof \<Rightarrow> Environment \<Rightarrow> Process \<Rightarrow> string \<Rightarrow> string
     \<Rightarrow> (error + (string \<times> string) list) \<times> Process" where
  "Proof_GetProofHeaders L P this env st access_token uri =
     (let vec = [] in
      if m_pKey this \<noteq> None then
        let ticks = DotNetTicks (system_clock_now env);
            vec = vec @ [(''X-WOPI-TimeStamp'', to_string ticks)]
        in (case Proof_GetProof P access_token uri ticks of
              Inl e \<Rightarrow> (Inl e, st)
            | Inr proof \<Rightarrow>
                (case SignProof L P this (s_digestEngine st) proof of
                   (Inl e, engine) \<Rightarrow> (Inl e, st\<lparr>s_digestEngine := engine\<rparr>)
                 | (Inr signature, engine) \<Rightarrow>
                     (Inr (vec @ [(''X-WOPI-Proof'', signature)]),
                      st\<lparr>s_digestEngine := engine\<rparr>)))
      else (Inr vec, st))"

text \<open>The two exported functions.\<close>

definition GetProofHeaders ::
  "Crypto \<Rightarrow> Platform \<Rightarrow> Environment \<Rightarrow> Process \<Rightarrow> string \<Rightarrow> string
     \<Rightarrow> (error + (string \<times> string) list) \<times> Process" where
  "GetProofHeaders L P env st access_token uri =
     (let (p, st) = GetProof P env st
      in Proof_GetProofHeaders L P p env st access_token uri)"

definition GetProofKeyAttributes ::
  "Platform \<Rightarrow> Environment \<Rightarrow> Process \<Rightarrow> (string \<times> string) list \<times> Process" where
  "GetProofKeyAttributes P env st =
     (let (p, st) = GetProof P env st in (m_aAttribs p, st))"

text \<open>
  A run of the process: one call per element of the list, each in the environment it finds,
  the state threaded through.
\<close>

fun GetProof_calls :: "Platform \<Rightarrow> Environment list \<Rightarrow> Process \<Rightarrow> Proof list \<times> Process" where
  "GetProof_calls P [] st = ([], st)"
| "GetProof_calls P (env # envs) st =
     (let (p, st) = GetProof P env st;
          (ps, st) = GetProof_calls P envs st
      in (p # ps, st))"

fun GetProofKeyAttributes_calls ::
  "Platform \<Rightarrow> Environment list \<Rightarrow> Process \<Rightarrow> (string \<times> string) list list \<times> Process" where
  "GetProofKeyAttributes_calls P [] st = ([], st)"
| "GetProofKeyAttributes_calls P (env # envs) st =
     (let (a, st) = GetProofKeyAttributes P env st;
          (as, st) = GetProofKeyAttributes_calls P envs st
      in (a # as, st))"

subsection \<open>An invariant of the engine, and sample inputs\<close>

text \<open>
  The engine never holds unfinished input while both stored values are empty. It holds of
  a fresh engine and every call of \<open>SignProof\<close> keeps it.
\<close>

definition engine_ok :: "RSADigestEngine option \<Rightarrow> bool" where
  "engine_ok eng =
     (case eng of
        None \<Rightarrow> True
      | Some e \<Rightarrow> e_engine e = [] \<or> e_digest e \<noteq> [] \<or> e_signature e \<noteq> [])"

text \<open>
  A build with assertions compiled out, a two-byte modulus with the exponent 65537, an
  environment in which the key loads at clock reading 0, and one in which the key file is
  missing.
\<close>

definition P0 :: Platform where
  "P0 = \<lparr>byte_order = LittleEndian, NDEBUG = True, LOOLWSD_CONFIGDIR = ''/etc/loolwsd''\<rparr>"

definition key0 :: RSAKey where
  "key0 = \<lparr>modulus = [0xC5, 0x3B], encryptionExponent = [0x01, 0x00, 0x01]\<rparr>"

definition env0 :: Environment where
  "env0 = \<lparr>key_file_exists = True, load_RSAKey = Loaded key0, system_clock_now = 0\<rparr>"

definition env_missing :: Environment where
  "env_missing = \<lparr>key_file_exists = False,
     load_RSAKey = Throws_Poco_Exception ''File not found'', system_clock_now = 0\<rparr>"

definition zeros57 :: "byte list" where
  "zeros57 = [0, 0, 0, 0, 0, 0, 0, 0, 0, 0, 0, 0, 0, 0, 0, 0, 0, 0, 0,
              0, 0, 0, 0, 0, 0, 0, 0, 0, 0, 0, 0, 0, 0, 0, 0, 0, 0, 0,
              0, 0, 0, 0, 0, 0, 0, 0, 0, 0, 0, 0, 0, 0, 0, 0, 0, 0, 0]"

section \<open>Properties\<close>

subsection \<open>Byte layout helpers\<close>

lemma getBytesLE_uint32_eq: "getBytesLE_uint32 bo x = le_bytes32 x"
  by (cases bo)
    (simp_all add: getBytesLE_uint32_def getBytesLE_def object_bytes32_def le_bytes32_def)

lemma unat_byte_of: "unat (ucast x :: byte) = unat x mod 256"
  by (simp only: unsigned_ucast_eq take_bit_eq_mod) simp

lemma le_decode_le_bytes32: "le_decode (le_bytes32 x) = unat x"
proof -
  define n where "n = unat x"
  have n: "n < 2 ^ 32" unfolding n_def using unsigned_less [of x] by simp
  have d2: "n div 2 ^ 16 = n div 256 div 256"
    and d3: "n div 2 ^ 24 = n div 256 div 256 div 256"
    by (simp_all add: div_mult2_eq)
  have top: "n div 256 div 256 div 256 < 256"
    using n by (simp add: div_mult2_eq less_mult_imp_div_less)
  have "le_decode (le_bytes32 x) =
        n mod 256 + 256 * ((n div 2 ^ 8) mod 256
          + 256 * ((n div 2 ^ 16) mod 256 + 256 * ((n div 2 ^ 24) mod 256)))"
    unfolding le_bytes32_def le_decode.simps unat_byte_of unat_drop_bit_eq n_def
    by (simp add: drop_bit_eq_div)
  also have "\<dots> = n mod 256 + 256 * ((n div 256) mod 256
          + 256 * ((n div 256 div 256) mod 256 + 256 * (n div 256 div 256 div 256)))"
    unfolding d2 d3 using top by simp
  also have "\<dots> = n"
    by (simp only: mod_mult_div_eq)
  finally show ?thesis by (simp add: n_def)
qed

lemma RSA2CapiBlob_eq:
  "RSA2CapiBlob bo M E = capi_header @ le_bytes32 (word_of_nat (length M * 8)) @ rev E @ rev M"
  by (simp add: RSA2CapiBlob_def getBytesLE_uint32_eq)

lemma length_capi_header: "length capi_header = 12"
  by (simp add: capi_header_def)

lemma length_le_bytes32: "length (le_bytes32 x) = 4"
  by (simp add: le_bytes32_def)

lemma bitlen_field:
  "take 4 (drop 12 (RSA2CapiBlob bo M E)) = le_bytes32 (word_of_nat (length M * 8))"
  by (simp add: RSA2CapiBlob_eq length_capi_header length_le_bytes32)

lemma le_decode_bitlen_field:
  "le_decode (take 4 (drop 12 (RSA2CapiBlob bo M E))) = (length M * 8) mod 2 ^ 32"
  by (simp only: bitlen_field le_decode_le_bytes32 unat_of_nat) simp

subsection \<open>Truncating division by 100\<close>

lemma sdiv_100_abs: "\<bar>(a::int) sdiv 100\<bar> = \<bar>a\<bar> div 100"
  by (simp add: signed_divide_int_def abs_mult sgn_if)

lemma sdiv_100_bounds:
  fixes a :: int
  assumes "- (2 ^ 63) \<le> a" "a < 2 ^ 63"
  shows "- 92233720368547758 \<le> a sdiv 100" "a sdiv 100 \<le> 92233720368547758"
proof -
  have "\<bar>a\<bar> div 100 \<le> 2 ^ 63 div 100"
    by (rule zdiv_mono1) (use assms in auto)
  then have "\<bar>a sdiv 100\<bar> \<le> 92233720368547758"
    by (simp add: sdiv_100_abs)
  then show "- 92233720368547758 \<le> a sdiv 100" "a sdiv 100 \<le> 92233720368547758"
    by linarith+
qed

lemma sdiv_100_nonneg: "0 \<le> (a::int) \<Longrightarrow> a sdiv 100 = a div 100"
  by (cases "a = 0") (simp_all add: signed_divide_int_def sgn_if)

lemma sdiv_100_neg: "(a::int) < 0 \<Longrightarrow> a sdiv 100 = - ((- a) div 100)"
  by (simp add: signed_divide_int_def sgn_if)

lemma sdiv_100_mono:
  fixes a b :: int
  assumes "a \<le> b"
  shows "a sdiv 100 \<le> b sdiv 100"
proof (cases "0 \<le> a")
  case True
  with assms have "a div 100 \<le> b div 100" "0 \<le> b" by (auto intro: zdiv_mono1)
  with True show ?thesis by (simp add: sdiv_100_nonneg)
next
  case False
  then have a: "a < 0" by simp
  show ?thesis
  proof (cases "0 \<le> b")
    case True
    have "a sdiv 100 \<le> 0" using a by (simp add: sdiv_100_neg)
    moreover have "0 \<le> b sdiv 100" using True by (simp add: sdiv_100_nonneg)
    ultimately show ?thesis by linarith
  next
    case False
    then have "(- b) div 100 \<le> (- a) div 100" using assms by (intro zdiv_mono1) auto
    with a False show ?thesis by (simp add: sdiv_100_neg)
  qed
qed

lemma sint_DotNetTicks: "sint (DotNetTicks utc) = sint utc sdiv 100 + 621355968000000000"
proof -
  have b: "- (2 ^ 63) \<le> sint utc" "sint utc < 2 ^ 63"
    using sint_ge [of utc] sint_lt [of utc] by simp_all
  note q = sdiv_100_bounds [OF b]
  have "DotNetTicks utc = word_of_int (sint utc sdiv 100 + 621355968000000000)"
    by (simp add: DotNetTicks_def)
  then have "sint (DotNetTicks utc)
      = signed_take_bit 63 (sint utc sdiv 100 + 621355968000000000)"
    by (simp only: sint_sbintrunc') simp
  also have "\<dots> = sint utc sdiv 100 + 621355968000000000"
    using q by (intro signed_take_bit_int_eq_self) simp_all
  finally show ?thesis .
qed

subsection \<open>The writer never changes the size of the buffer\<close>

lemma used_ostream_write: "b_used (w_data (ostream_write s w)) = b_used (w_data w)"
  by (simp add: ostream_write_def Let_def)

lemma used_write7BitEncoded: "b_used (w_data (write7BitEncoded v w)) = b_used (w_data w)"
proof -
  have "b_used (w_data (fold (\<lambda>c. ostream_write [char_of_byte c]) cs w)) = b_used (w_data w)"
    for cs
    by (induction cs arbitrary: w) (simp_all add: used_ostream_write)
  then show ?thesis by (simp add: write7BitEncoded_def)
qed

lemma used_write_string: "b_used (w_data (write_string s w)) = b_used (w_data w)"
  by (simp add: write_string_def used_ostream_write used_write7BitEncoded)

lemma used_write_Int32: "b_used (w_data (write_Int32 v w)) = b_used (w_data w)"
  by (simp add: write_Int32_def used_ostream_write)

lemma used_write_Int64: "b_used (w_data (write_Int64 v w)) = b_used (w_data w)"
  by (simp add: write_Int64_def used_ostream_write)

lemma Buffer_size_GetProof_writer: "Buffer_size (w_data (GetProof_writer d u t)) = 0"
  by (simp add: GetProof_writer_def Buffer_size_def Let_def used_write_Int32 used_write_Int64
      used_write_string MemoryBinaryWriter_ctor_def Buffer_resize_def)

lemma Buffer_range_empty: "Buffer_size b = 0 \<Longrightarrow> Buffer_range b = Inr []"
  by (simp add: Buffer_size_def Buffer_range_def)

lemma Proof_GetProof_eq:
  "Proof_GetProof P access_token uri ticks =
     (case URI_decode access_token of
        Inl e \<Rightarrow> Inl e
      | Inr decoded \<Rightarrow> if NDEBUG P then Inr [] else Inl AssertionFailed)"
  by (simp add: Proof_GetProof_def assert_fails_def Buffer_size_GetProof_writer
      Buffer_range_empty Let_def split: sum.splits)

lemma Proof_GetProof_decoded:
  "URI_decode access_token = Inr d \<Longrightarrow>
   Proof_GetProof P access_token uri ticks = (if NDEBUG P then Inr [] else Inl AssertionFailed)"
  by (simp only: Proof_GetProof_eq sum.case)

lemma Proof_GetProof_cong:
  "URI_decode ta = URI_decode tb \<Longrightarrow> Proof_GetProof P ta u ticks = Proof_GetProof P tb u ticks"
  by (simp add: Proof_GetProof_def)

lemma length_proof_layout:
  "length (proof_layout d u t) = 4 + length d + 4 + length u + 4 + 8"
  by (simp add: proof_layout_def be_bytes32_def be_bytes64_def)

subsection \<open>Decoding of sample tokens\<close>

lemma URI_decode_abc: "URI_decode ''abc'' = Inr ''abc''"
  by simp

lemma URI_decode_token: "URI_decode ''tok%20en'' = Inr ''tok en''"
  by (simp add: hex_digit_def char_of_def bit_Suc_0_iff)

lemma URI_decode_4a: "URI_decode ''%4a'' = Inr ''J''"
  by (simp add: hex_digit_def char_of_def bit_Suc_0_iff)

lemma URI_decode_4A: "URI_decode ''%4A'' = Inr ''J''"
  by (simp add: hex_digit_def char_of_def bit_Suc_0_iff)

lemma URI_decode_percent: "URI_decode ''%'' = Inl URISyntaxException"
  by simp

subsection \<open>Line endings and signing\<close>

lemma LineEndingConverter_empty_newline:
  "CR \<notin> set (LineEndingConverter [] lastChar cs) \<and> LF \<notin> set (LineEndingConverter [] lastChar cs)"
  by (induction cs arbitrary: lastChar) auto

lemma SignProof_Some:
  assumes "m_pKey this = Some k"
  shows "\<exists>sig e. SignProof L P this eng b = (Inr (BytesToBase64 sig), Some e)"
  using assms
  by (cases eng)
     (auto simp: SignProof_def assert_fails_def BytesToBase64_def Let_def split: prod.splits)

lemma SignProof_fresh:
  assumes "m_pKey this = Some k"
  shows "fst (SignProof L P this None b) = Inr (BytesToBase64 (RSA_sign L k (SHA256 L b)))"
  using assms
  by (simp add: SignProof_def assert_fails_def BytesToBase64_def Let_def
      RSADigestEngine_signature_def RSADigestEngine_digest_def RSADigestEngine_update_def
      RSADigestEngine_ctor_def split: prod.splits)

lemma engine_ok_SignProof: "engine_ok eng \<Longrightarrow> engine_ok (snd (SignProof L P this eng b))"
  by (cases eng; cases "m_pKey this")
     (auto simp: engine_ok_def SignProof_def assert_fails_def Let_def
        RSADigestEngine_signature_def RSADigestEngine_digest_def RSADigestEngine_update_def
        RSADigestEngine_ctor_def split: prod.splits)

lemma SignProof_twice:
  "engine_ok eng \<Longrightarrow>
   fst (SignProof L P this (snd (SignProof L P this eng b)) b) = fst (SignProof L P this eng b)"
  by (cases eng; cases "m_pKey this")
     (auto simp: engine_ok_def SignProof_def assert_fails_def Let_def
        RSADigestEngine_signature_def RSADigestEngine_digest_def RSADigestEngine_update_def
        RSADigestEngine_ctor_def split: prod.splits)

subsection \<open>The statics and the header function\<close>

lemma s_digestEngine_GetProof: "s_digestEngine (snd (GetProof P env st)) = s_digestEngine st"
  by (simp add: GetProof_def split: option.splits prod.splits)

lemma m_pKey_Proof_ctor:
  "m_pKey (fst (Proof_ctor P env)) =
     (case load_RSAKey env of
        Loaded key \<Rightarrow> Some key
      | Throws_Poco_Exception displayText \<Rightarrow> None
      | Throws_std_exception what \<Rightarrow> None
      | Throws_unknown \<Rightarrow> None)"
  by (simp add: Proof_ctor_def Let_def split: prod.splits key_load.splits)

lemma m_aAttribs_Proof_ctor:
  "m_aAttribs (fst (Proof_ctor P env)) =
     (case load_RSAKey env of
        Loaded key \<Rightarrow>
          [(''value'', BytesToBase64
              (RSA2CapiBlob (byte_order P) (modulus key) (encryptionExponent key))),
           (''modulus'', BytesToBase64 (modulus key)),
           (''exponent'', BytesToBase64 (encryptionExponent key))]
      | Throws_Poco_Exception displayText \<Rightarrow> []
      | Throws_std_exception what \<Rightarrow> []
      | Throws_unknown \<Rightarrow> [])"
  by (simp add: Proof_ctor_def Let_def split: prod.splits key_load.splits)

lemma GetProof_cached: "s_proof st = Some p \<Longrightarrow> GetProof P env st = (p, st)"
  by (simp add: GetProof_def)

lemma GetProof_first:
  "GetProof P env Process_start
     = (fst (Proof_ctor P env),
        \<lparr>s_proof = Some (fst (Proof_ctor P env)), s_digestEngine = None, s_key_loads = 1,
          s_log = snd (Proof_ctor P env)\<rparr>)"
  by (simp add: GetProof_def Process_start_def split: prod.splits)

lemma GetProof_calls_cached:
  "s_proof st = Some p \<Longrightarrow> GetProof_calls P envs st = (replicate (length envs) p, st)"
  by (induction envs) (simp_all add: GetProof_cached)

lemma GetProof_calls_start:
  "GetProof_calls P (env # envs) Process_start
     = (replicate (Suc (length envs)) (fst (Proof_ctor P env)),
        \<lparr>s_proof = Some (fst (Proof_ctor P env)), s_digestEngine = None, s_key_loads = 1,
          s_log = snd (Proof_ctor P env)\<rparr>)"
  by (simp add: GetProof_first GetProof_calls_cached)

lemma GetProofKeyAttributes_calls_cached:
  "s_proof st = Some p \<Longrightarrow>
   GetProofKeyAttributes_calls P envs st = (replicate (length envs) (m_aAttribs p), st)"
  by (induction envs) (simp_all add: GetProofKeyAttributes_def GetProof_cached)

lemma GetProofKeyAttributes_calls_start:
  "GetProofKeyAttributes_calls P (env # envs) Process_start
     = (replicate (Suc (length envs)) (m_aAttribs (fst (Proof_ctor P env))),
        \<lparr>s_proof = Some (fst (Proof_ctor P env)), s_digestEngine = None, s_key_loads = 1,
          s_log = snd (Proof_ctor P env)\<rparr>)"
  by (simp add: GetProofKeyAttributes_def GetProof_first GetProofKeyAttributes_calls_cached)

lemma GetProofHeaders_unfold:
  "fst (GetProofHeaders L P env st t u)
     = fst (Proof_GetProofHeaders L P (fst (GetProof P env st)) env (snd (GetProof P env st)) t u)"
  by (simp add: GetProofHeaders_def split: prod.splits)

lemma GetProofHeaders_keeps_proof:
  assumes "s_proof st = Some p"
  shows "s_proof (snd (GetProofHeaders L P env st t u)) = Some p"
    and "s_key_loads (snd (GetProofHeaders L P env st t u)) = s_key_loads st"
  using assms
  by (auto simp: GetProofHeaders_def GetProof_cached Proof_GetProofHeaders_def Let_def
      split: prod.splits sum.splits)

lemma GetProofKeyAttributes_keeps_state:
  "s_proof st = Some p \<Longrightarrow> GetProofKeyAttributes P env st = (m_aAttribs p, st)"
  by (simp add: GetProofKeyAttributes_def GetProof_cached)

lemma GetProofHeaders_cong:
  "URI_decode ta = URI_decode tb \<Longrightarrow>
   GetProofHeaders L P env st ta u = GetProofHeaders L P env st tb u"
  by (simp add: GetProofHeaders_def Proof_GetProofHeaders_def Proof_GetProof_cong [of ta tb]
      split: prod.splits)

lemma Proof_GetProofHeaders_signed:
  assumes "m_pKey this = Some k"
    and "Proof_GetProof P t u (DotNetTicks (system_clock_now env)) = Inr bytes"
    and "fst (SignProof L P this (s_digestEngine st) bytes) = Inr signature"
  shows "fst (Proof_GetProofHeaders L P this env st t u)
     = Inr [(''X-WOPI-TimeStamp'', to_string (DotNetTicks (system_clock_now env))),
            (''X-WOPI-Proof'', signature)]"
  using assms by (auto simp: Proof_GetProofHeaders_def split: prod.splits sum.splits)

lemma Proof_GetProofHeaders_no_key:
  "m_pKey this = None \<Longrightarrow> Proof_GetProofHeaders L P this env st t u = (Inr [], st)"
  by (simp add: Proof_GetProofHeaders_def)

lemma Proof_GetProofHeaders_throws:
  assumes "m_pKey this = Some k"
    and "Proof_GetProof P t u (DotNetTicks (system_clock_now env)) = Inl e"
  shows "Proof_GetProofHeaders L P this env st t u = (Inl e, st)"
  using assms by (simp add: Proof_GetProofHeaders_def)

subsection \<open>The sample inputs\<close>

lemma NDEBUG_P0: "NDEBUG P0"
  by (simp add: P0_def)

lemma m_pKey_env0: "m_pKey (fst (GetProof P0 env0 Process_start)) = Some key0"
  by (simp add: GetProof_first m_pKey_Proof_ctor env0_def)

lemma m_pKey_env_missing: "m_pKey (fst (GetProof P0 env_missing Process_start)) = None"
  by (simp add: GetProof_first m_pKey_Proof_ctor env_missing_def)

lemma now_env0: "system_clock_now env0 = 0"
  by (simp add: env0_def)

lemma Proof_GetProof_P0:
  "URI_decode t = Inr d \<Longrightarrow> Proof_GetProof P0 t u ticks = Inr []"
  by (simp add: Proof_GetProof_decoded NDEBUG_P0)

lemma decimal_epoch: "decimal 621355968000000000 = ''621355968000000000''"
  by (simp add: decimal.simps char_of_def bit_Suc_0_iff)

lemma to_string_epoch: "to_string (DotNetTicks 0) = ''621355968000000000''"
  by (simp add: to_string_def DotNetTicks_def decimal_epoch)

lemma GetProofHeaders_P0_env0:
  assumes "URI_decode t = Inr d"
  shows "fst (GetProofHeaders L P0 env0 Process_start t u)
          = Inr [(''X-WOPI-TimeStamp'', to_string (DotNetTicks 0)),
                 (''X-WOPI-Proof'', BytesToBase64 (RSA_sign L key0 (SHA256 L [])))]"
proof -
  have e: "s_digestEngine (snd (GetProof P0 env0 Process_start)) = None"
    by (simp add: s_digestEngine_GetProof Process_start_def)
  have "fst (Proof_GetProofHeaders L P0 (fst (GetProof P0 env0 Process_start)) env0
               (snd (GetProof P0 env0 Process_start)) t u)
          = Inr [(''X-WOPI-TimeStamp'', to_string (DotNetTicks (system_clock_now env0))),
                 (''X-WOPI-Proof'', BytesToBase64 (RSA_sign L key0 (SHA256 L [])))]"
  proof (rule Proof_GetProofHeaders_signed [OF m_pKey_env0])
    show "Proof_GetProof P0 t u (DotNetTicks (system_clock_now env0)) = Inr []"
      by (rule Proof_GetProof_P0 [OF assms])
    show "fst (SignProof L P0 (fst (GetProof P0 env0 Process_start))
                 (s_digestEngine (snd (GetProof P0 env0 Process_start))) [])
            = Inr (BytesToBase64 (RSA_sign L key0 (SHA256 L [])))"
      unfolding e by (rule SignProof_fresh [OF m_pKey_env0])
  qed
  then show ?thesis
    by (simp only: GetProofHeaders_unfold now_env0)
qed

section \<open>The claims\<close>

text \<open>
  C1. The claim says that \<^verbatim>\<open>Proof::GetProof\<close> returns \<open>proof_layout\<close> of the decoded token,
  the URI and the ticks: 33 bytes for the token \<^verbatim>\<open>abc\<close> and the URI \<^verbatim>\<open>http://x/y\<close>, the
  first four reading 3. The code does not return it. After \<^verbatim>\<open>buffer.resize(0)\<close> the writer
  stores into the cells of the buffer but the size of the buffer stays 0, so the final
  assertion \<^verbatim>\<open>buffer.size() == size\<close> fails when assertions are compiled in, and the
  empty string is returned when they are compiled out. The cells themselves hold a 7-bit
  length in front of each string, and the last bytes of the ticks do not fit. (The URI
  of the second example has 25 bytes, so that its layout has 51 bytes.)
\<close>

theorem GetProof_returns_no_bytes:
  "Proof_GetProof (P\<lparr>NDEBUG := True\<rparr>) ''abc'' ''http://x/y'' ticks = Inr []
   \<and> Proof_GetProof (P\<lparr>NDEBUG := False\<rparr>) ''abc'' ''http://x/y'' ticks = Inl AssertionFailed
   \<and> length (proof_layout ''abc'' ''http://x/y'' ticks) = 33
   \<and> be_decode (take 4 (proof_layout ''abc'' ''http://x/y'' ticks)) = 3
   \<and> Proof_GetProof (P\<lparr>NDEBUG := True\<rparr>) ''tok%20en'' ''https://host/wopi/files/1''
        637000000000000000 = Inr []
   \<and> length (proof_layout ''tok en'' ''https://host/wopi/files/1'' 637000000000000000) = 51
   \<and> Buffer_size (w_data (GetProof_writer ''abc'' ''http://x/y'' 0)) = 0
   \<and> those (b_ptr (w_data (GetProof_writer ''abc'' ''http://x/y'' 0)))
       = Some ([CHR 0x00, CHR 0x00, CHR 0x00, CHR 0x03, CHR 0x03] @ ''abc''
               @ [CHR 0x00, CHR 0x00, CHR 0x00, CHR 0x0A, CHR 0x0A] @ ''http://x/y''
               @ [CHR 0x00, CHR 0x00, CHR 0x00, CHR 0x08,
                  CHR 0x00, CHR 0x00, CHR 0x00, CHR 0x00, CHR 0x00, CHR 0x00])"
proof (intro conjI)
  show "Proof_GetProof (P\<lparr>NDEBUG := True\<rparr>) ''abc'' ''http://x/y'' ticks = Inr []"
    by (simp add: Proof_GetProof_decoded [OF URI_decode_abc])
  show "Proof_GetProof (P\<lparr>NDEBUG := False\<rparr>) ''abc'' ''http://x/y'' ticks = Inl AssertionFailed"
    by (simp add: Proof_GetProof_decoded [OF URI_decode_abc])
  show "length (proof_layout ''abc'' ''http://x/y'' ticks) = 33"
    by (simp add: length_proof_layout)
  show "be_decode (take 4 (proof_layout ''abc'' ''http://x/y'' ticks)) = 3"
    by (simp add: proof_layout_def be_bytes32_def be_decode_def char_of_byte_def char_of_def
        bit_Suc_0_iff)
  show "Proof_GetProof (P\<lparr>NDEBUG := True\<rparr>) ''tok%20en'' ''https://host/wopi/files/1''
        637000000000000000 = Inr []"
    by (simp add: Proof_GetProof_decoded [OF URI_decode_token])
  show "length (proof_layout ''tok en'' ''https://host/wopi/files/1'' 637000000000000000) = 51"
    by (simp add: length_proof_layout)
  show "Buffer_size (w_data (GetProof_writer ''abc'' ''http://x/y'' 0)) = 0"
    by (rule Buffer_size_GetProof_writer)
  show "those (b_ptr (w_data (GetProof_writer ''abc'' ''http://x/y'' 0)))
       = Some ([CHR 0x00, CHR 0x00, CHR 0x00, CHR 0x03, CHR 0x03] @ ''abc''
               @ [CHR 0x00, CHR 0x00, CHR 0x00, CHR 0x0A, CHR 0x0A] @ ''http://x/y''
               @ [CHR 0x00, CHR 0x00, CHR 0x00, CHR 0x08,
                  CHR 0x00, CHR 0x00, CHR 0x00, CHR 0x00, CHR 0x00, CHR 0x00])"
    by code_simp
qed

text \<open>
  C2. For every modulus \<open>M\<close> and exponent \<open>E\<close>, on either byte order of the host,
  \<open>RSA2CapiBlob\<close> has length \<open>16 + length E + length M\<close>; it starts with the twelve header
  bytes; its bytes 12 to 15 read, little-endian, as \<open>length M * 8\<close> reduced modulo
  \<open>2 ^ 32\<close> (the field is a \<^verbatim>\<open>std::uint32_t\<close>), which is \<open>length M * 8\<close> itself for a
  modulus shorter than \<open>2 ^ 29\<close> bytes; then come the bytes of \<open>E\<close> reversed and the bytes
  of \<open>M\<close> reversed. The result on a little-endian host and on a big-endian host is the same.
\<close>

theorem RSA2CapiBlob_layout:
  "length (RSA2CapiBlob bo M E) = 16 + length E + length M
   \<and> take 12 (RSA2CapiBlob bo M E)
       = [0x06, 0x02, 0x00, 0x00, 0x00, 0xA4, 0x00, 0x00, 0x52, 0x53, 0x41, 0x31]
   \<and> le_decode (take 4 (drop 12 (RSA2CapiBlob bo M E))) = (length M * 8) mod 2 ^ 32
   \<and> (length M < 2 ^ 29 \<longrightarrow> le_decode (take 4 (drop 12 (RSA2CapiBlob bo M E))) = length M * 8)
   \<and> drop 16 (RSA2CapiBlob bo M E) = rev E @ rev M
   \<and> RSA2CapiBlob LittleEndian M E = RSA2CapiBlob BigEndian M E"
proof (intro conjI impI)
  show "length (RSA2CapiBlob bo M E) = 16 + length E + length M"
    by (simp add: RSA2CapiBlob_eq length_capi_header length_le_bytes32)
  show "take 12 (RSA2CapiBlob bo M E)
       = [0x06, 0x02, 0x00, 0x00, 0x00, 0xA4, 0x00, 0x00, 0x52, 0x53, 0x41, 0x31]"
    by (simp add: RSA2CapiBlob_eq length_capi_header) (simp add: capi_header_def)
  show d: "le_decode (take 4 (drop 12 (RSA2CapiBlob bo M E))) = (length M * 8) mod 2 ^ 32"
    by (rule le_decode_bitlen_field)
  show "drop 16 (RSA2CapiBlob bo M E) = rev E @ rev M"
    by (simp add: RSA2CapiBlob_eq length_capi_header length_le_bytes32)
  show "RSA2CapiBlob LittleEndian M E = RSA2CapiBlob BigEndian M E"
    by (simp add: RSA2CapiBlob_eq)
  assume "length M < 2 ^ 29"
  then have "length M * 8 < 2 ^ 32" by simp
  then show "le_decode (take 4 (drop 12 (RSA2CapiBlob bo M E))) = length M * 8"
    unfolding d by (rule mod_less)
qed

theorem RSA2CapiBlob_layout_witness:
  "length [0xC5, 0x3B :: byte] < 2 ^ 29
   \<and> RSA2CapiBlob BigEndian [0xC5, 0x3B] [0x01, 0x00, 0x01]
       = [0x06, 0x02, 0x00, 0x00, 0x00, 0xA4, 0x00, 0x00, 0x52, 0x53, 0x41, 0x31,
          0x10, 0x00, 0x00, 0x00, 0x01, 0x00, 0x01, 0x3B, 0xC5]
   \<and> le_decode (take 4 (drop 12 (RSA2CapiBlob BigEndian [0xC5, 0x3B] [0x01, 0x00, 0x01]))) = 16"
proof -
  have h: "length [0xC5, 0x3B :: byte] < 2 ^ 29" by simp
  have "le_decode (take 4 (drop 12 (RSA2CapiBlob BigEndian [0xC5, 0x3B] [0x01, 0x00, 0x01])))
      = length [0xC5, 0x3B :: byte] * 8"
    using RSA2CapiBlob_layout
      [where bo = BigEndian and M = "[0xC5, 0x3B]" and E = "[0x01, 0x00, 0x01]"] h
    by blast
  moreover have "RSA2CapiBlob BigEndian [0xC5, 0x3B] [0x01, 0x00, 0x01]
       = [0x06, 0x02, 0x00, 0x00, 0x00, 0xA4, 0x00, 0x00, 0x52, 0x53, 0x41, 0x31,
          0x10, 0x00, 0x00, 0x00, 0x01, 0x00, 0x01, 0x3B, 0xC5]"
    by (simp add: RSA2CapiBlob_def getBytesLE_uint32_def getBytesLE_def object_bytes32_def
        le_bytes32_def capi_header_def)
  ultimately show ?thesis using h by simp
qed

text \<open>
  The claim as stated, "for every modulus", fails for a modulus of \<open>2 ^ 29\<close> bytes: its bit
  length is \<open>2 ^ 32\<close> and the four bytes of the field read 0.
\<close>

theorem RSA2CapiBlob_bitlen_wraps:
  "le_decode (take 4 (drop 12 (RSA2CapiBlob LittleEndian (replicate (2 ^ 29) 0) []))) = 0
   \<and> length (replicate (2 ^ 29) (0 :: byte)) * 8 = 4294967296"
proof
  have "le_decode (take 4 (drop 12 (RSA2CapiBlob LittleEndian (replicate (2 ^ 29) 0) [])))
      = (length (replicate (2 ^ 29) (0 :: byte)) * 8) mod 2 ^ 32"
    by (rule le_decode_bitlen_field)
  also have "\<dots> = (2 ^ 29 * 8) mod 2 ^ 32"
    by (simp only: length_replicate)
  also have "\<dots> = (0 :: nat)" by simp
  finally show
    "le_decode (take 4 (drop 12 (RSA2CapiBlob LittleEndian (replicate (2 ^ 29) 0) []))) = 0" .
  have "length (replicate (2 ^ 29) (0 :: byte)) * 8 = (2 ^ 29 * 8 :: nat)"
    by (simp only: length_replicate)
  also have "\<dots> = 4294967296" by simp
  finally show "length (replicate (2 ^ 29) (0 :: byte)) * 8 = 4294967296" .
qed

text \<open>
  C3. \<open>DotNetTicks\<close> is exact: read as a signed number, its result is the nanosecond count
  divided by 100 (truncating, as C++ does) plus 621355968000000000, with no wrap-around
  for any 64-bit count. At the Unix epoch it is 621355968000000000, and it is monotone:
  an instant that is not later gives a tick count that is not larger.
\<close>

theorem DotNetTicks_exact_monotone:
  "sint (DotNetTicks utc) = sint utc sdiv 100 + 621355968000000000
   \<and> DotNetTicks 0 = 621355968000000000
   \<and> (sint t1 \<le> sint t2 \<longrightarrow> sint (DotNetTicks t1) \<le> sint (DotNetTicks t2))"
proof (intro conjI impI)
  show "sint (DotNetTicks utc) = sint utc sdiv 100 + 621355968000000000"
    by (rule sint_DotNetTicks)
  show "DotNetTicks 0 = 621355968000000000"
    by (simp add: DotNetTicks_def)
next
  assume "sint t1 \<le> sint t2"
  then show "sint (DotNetTicks t1) \<le> sint (DotNetTicks t2)"
    by (simp add: sint_DotNetTicks sdiv_100_mono)
qed

theorem DotNetTicks_exact_monotone_witness:
  "sint (- 150 :: 64 word) \<le> sint (250 :: 64 word)
   \<and> sint (DotNetTicks (- 150)) = 621355967999999999
   \<and> sint (DotNetTicks 250) = 621355968000000002
   \<and> sint (DotNetTicks (- 150)) \<le> sint (DotNetTicks 250)"
proof -
  have h: "sint (- 150 :: 64 word) \<le> sint (250 :: 64 word)" by simp
  have a: "sint (DotNetTicks (- 150)) = sint (- 150 :: 64 word) sdiv 100 + 621355968000000000"
    using DotNetTicks_exact_monotone [of "- 150" 0 0] by blast
  have b: "sint (DotNetTicks 250) = sint (250 :: 64 word) sdiv 100 + 621355968000000000"
    using DotNetTicks_exact_monotone [of 250 0 0] by blast
  have c: "sint (DotNetTicks (- 150)) \<le> sint (DotNetTicks 250)"
    using DotNetTicks_exact_monotone [of 0 "- 150" 250] h by blast
  have "sint (- 150 :: 64 word) sdiv 100 = - 1" "sint (250 :: 64 word) sdiv 100 = 2"
    by (simp_all add: signed_divide_int_def)
  with h a b c show ?thesis by simp
qed

text \<open>
  C4. The claim says that the tick value of the \<^verbatim>\<open>X-WOPI-TimeStamp\<close> header is also the
  last eight bytes of the string that is signed. \<^verbatim>\<open>Proof::GetProofHeaders\<close> does pass one
  \<open>ticks\<close> to both places, but what \<^verbatim>\<open>Proof::GetProof\<close> hands back, and so what is
  signed, is the empty string: with a key, assertions compiled out and a fresh engine, the
  header carries the ticks and the signature is that of the digest of no bytes at all.
\<close>

theorem headers_sign_empty_string:
  "fst (Proof_GetProofHeaders L (P\<lparr>NDEBUG := True\<rparr>) \<lparr>m_pKey = Some k, m_aAttribs = a\<rparr> env
          (st\<lparr>s_digestEngine := None\<rparr>) ''abc'' ''http://x/y'')
   = Inr [(''X-WOPI-TimeStamp'', to_string (DotNetTicks (system_clock_now env))),
          (''X-WOPI-Proof'', BytesToBase64 (RSA_sign L k (SHA256 L [])))]"
proof (rule Proof_GetProofHeaders_signed)
  show "m_pKey \<lparr>m_pKey = Some k, m_aAttribs = a\<rparr> = Some k" by simp
  show "Proof_GetProof (P\<lparr>NDEBUG := True\<rparr>) ''abc'' ''http://x/y''
          (DotNetTicks (system_clock_now env)) = Inr []"
    by (simp add: Proof_GetProof_decoded [OF URI_decode_abc])
  show "fst (SignProof L (P\<lparr>NDEBUG := True\<rparr>) \<lparr>m_pKey = Some k, m_aAttribs = a\<rparr>
          (s_digestEngine (st\<lparr>s_digestEngine := None\<rparr>)) [])
        = Inr (BytesToBase64 (RSA_sign L k (SHA256 L [])))"
    by (simp add: SignProof_fresh)
qed

text \<open>
  C5. When no key is loaded, \<open>GetProofHeaders\<close> returns the empty list and raises nothing,
  for every access token and URI. When a key is loaded and \<^verbatim>\<open>Proof::GetProof\<close> returns a
  string for this token, URI and clock reading, it returns exactly two pairs, in this
  order: \<^verbatim>\<open>X-WOPI-TimeStamp\<close> with the decimal string of the tick count, and
  \<^verbatim>\<open>X-WOPI-Proof\<close> with the string that \<^verbatim>\<open>Proof::SignProof\<close> returns.
\<close>

theorem GetProofHeaders_two_or_none:
  "(m_pKey (fst (GetProof P env st)) = None \<longrightarrow>
      fst (GetProofHeaders L P env st access_token uri) = Inr [])
   \<and> (m_pKey (fst (GetProof P env st)) \<noteq> None
        \<and> Proof_GetProof P access_token uri (DotNetTicks (system_clock_now env)) = Inr bytes \<longrightarrow>
      (\<exists>signature.
         fst (SignProof L P (fst (GetProof P env st)) (s_digestEngine st) bytes) = Inr signature
         \<and> fst (GetProofHeaders L P env st access_token uri)
           = Inr [(''X-WOPI-TimeStamp'', to_string (DotNetTicks (system_clock_now env))),
                  (''X-WOPI-Proof'', signature)]))"
proof (intro conjI impI)
  assume "m_pKey (fst (GetProof P env st)) = None"
  then show "fst (GetProofHeaders L P env st access_token uri) = Inr []"
    by (simp add: GetProofHeaders_unfold Proof_GetProofHeaders_no_key)
next
  assume a: "m_pKey (fst (GetProof P env st)) \<noteq> None
        \<and> Proof_GetProof P access_token uri (DotNetTicks (system_clock_now env)) = Inr bytes"
  then obtain k where k: "m_pKey (fst (GetProof P env st)) = Some k" by auto
  from a have g:
    "Proof_GetProof P access_token uri (DotNetTicks (system_clock_now env)) = Inr bytes"
    by simp
  from SignProof_Some [OF k] obtain sig e
    where s: "SignProof L P (fst (GetProof P env st)) (s_digestEngine st) bytes
                = (Inr (BytesToBase64 sig), Some e)"
    by blast
  have sf: "fst (SignProof L P (fst (GetProof P env st))
                  (s_digestEngine (snd (GetProof P env st))) bytes) = Inr (BytesToBase64 sig)"
    by (simp only: s_digestEngine_GetProof s fst_conv)
  have "fst (GetProofHeaders L P env st access_token uri)
           = Inr [(''X-WOPI-TimeStamp'', to_string (DotNetTicks (system_clock_now env))),
                  (''X-WOPI-Proof'', BytesToBase64 sig)]"
    unfolding GetProofHeaders_unfold
    by (rule Proof_GetProofHeaders_signed [OF k g sf])
  moreover have "fst (SignProof L P (fst (GetProof P env st)) (s_digestEngine st) bytes)
      = Inr (BytesToBase64 sig)"
    by (simp only: s fst_conv)
  ultimately show "\<exists>signature.
         fst (SignProof L P (fst (GetProof P env st)) (s_digestEngine st) bytes) = Inr signature
         \<and> fst (GetProofHeaders L P env st access_token uri)
           = Inr [(''X-WOPI-TimeStamp'', to_string (DotNetTicks (system_clock_now env))),
                  (''X-WOPI-Proof'', signature)]"
    by blast
qed

theorem GetProofHeaders_two_or_none_witness:
  "\<forall>L. fst (GetProofHeaders L P0 env_missing Process_start ''abc'' ''http://x/y'') = Inr []
     \<and> (\<exists>signature.
          fst (GetProofHeaders L P0 env0 Process_start ''abc'' ''http://x/y'')
            = Inr [(''X-WOPI-TimeStamp'', ''621355968000000000''),
                   (''X-WOPI-Proof'', signature)])"
proof (intro allI conjI)
  fix L
  show "fst (GetProofHeaders L P0 env_missing Process_start ''abc'' ''http://x/y'') = Inr []"
    using GetProofHeaders_two_or_none
      [where P = P0 and env = env_missing and st = Process_start and L = L
         and access_token = "''abc''" and uri = "''http://x/y''"]
      m_pKey_env_missing by blast
  have some: "m_pKey (fst (GetProof P0 env0 Process_start)) \<noteq> None"
    by (simp add: m_pKey_env0)
  have g: "Proof_GetProof P0 ''abc'' ''http://x/y'' (DotNetTicks (system_clock_now env0)) = Inr []"
    by (rule Proof_GetProof_P0 [OF URI_decode_abc])
  show "\<exists>signature.
          fst (GetProofHeaders L P0 env0 Process_start ''abc'' ''http://x/y'')
            = Inr [(''X-WOPI-TimeStamp'', ''621355968000000000''),
                   (''X-WOPI-Proof'', signature)]"
    using GetProofHeaders_two_or_none
      [where P = P0 and env = env0 and st = Process_start and L = L
         and access_token = "''abc''" and uri = "''http://x/y''" and bytes = "[]"]
      some g unfolding now_env0 to_string_epoch by blast
qed

text \<open>
  The claim as stated, "for every access token", fails for a token with a malformed
  escape: with a key loaded, the exception of \<^verbatim>\<open>Poco::URI::decode\<close> leaves
  \<open>GetProofHeaders\<close> and no header is returned.
\<close>

theorem GetProofHeaders_malformed_token:
  "m_pKey (fst (GetProof P0 env0 Process_start)) = Some key0
   \<and> (\<forall>L. fst (GetProofHeaders L P0 env0 Process_start ''%'' ''http://x/y'')
          = Inl URISyntaxException)"
proof (intro conjI allI)
  show "m_pKey (fst (GetProof P0 env0 Process_start)) = Some key0"
    by (rule m_pKey_env0)
  have g: "Proof_GetProof P0 ''%'' ''http://x/y'' t = Inl URISyntaxException" for t
    by (simp only: Proof_GetProof_eq URI_decode_percent sum.case)
  show "fst (GetProofHeaders L P0 env0 Process_start ''%'' ''http://x/y'') = Inl URISyntaxException"
    for L
    unfolding GetProofHeaders_unfold
    by (simp only: Proof_GetProofHeaders_throws [OF m_pKey_env0 g] fst_conv)
qed

text \<open>
  C6. The claim has two halves. Two calls of \<open>SignProof\<close> in a row on the same bytes do
  give the same base64 string. But inputs that differ in a byte of the access token or of
  the URI do not give different signatures: \<^verbatim>\<open>Proof::GetProof\<close> hands back the empty
  string for each of them, so with a key, assertions compiled out and a fresh engine the
  tokens \<^verbatim>\<open>abc\<close> and \<^verbatim>\<open>abd\<close>, and the URIs \<^verbatim>\<open>http://x/y\<close> and \<^verbatim>\<open>http://x/z\<close>, all
  get the signature of the digest of no bytes. Moreover the engine of \<open>SignProof\<close> is a
  static that is never reset: once it holds a signature, it returns that signature for
  whatever bytes it is given.
\<close>

theorem differing_inputs_same_signature:
  "''abc'' \<noteq> ''abd''
   \<and> ''http://x/y'' \<noteq> ''http://x/z''
   \<and> fst (GetProofHeaders L P0 env0 Process_start ''abc'' ''http://x/y'')
       = Inr [(''X-WOPI-TimeStamp'', to_string (DotNetTicks 0)),
              (''X-WOPI-Proof'', BytesToBase64 (RSA_sign L key0 (SHA256 L [])))]
   \<and> fst (GetProofHeaders L P0 env0 Process_start ''abd'' ''http://x/y'')
       = Inr [(''X-WOPI-TimeStamp'', to_string (DotNetTicks 0)),
              (''X-WOPI-Proof'', BytesToBase64 (RSA_sign L key0 (SHA256 L [])))]
   \<and> fst (GetProofHeaders L P0 env0 Process_start ''abc'' ''http://x/z'')
       = Inr [(''X-WOPI-TimeStamp'', to_string (DotNetTicks 0)),
              (''X-WOPI-Proof'', BytesToBase64 (RSA_sign L key0 (SHA256 L [])))]
   \<and> fst (SignProof L P \<lparr>m_pKey = Some k, m_aAttribs = a\<rparr>
            (Some (e\<lparr>e_signature := x # xs\<rparr>)) b)
       = Inr (BytesToBase64 (x # xs))
   \<and> fst (SignProof L P \<lparr>m_pKey = Some k, m_aAttribs = a\<rparr>
            (snd (SignProof L P \<lparr>m_pKey = Some k, m_aAttribs = a\<rparr> None b)) b)
       = fst (SignProof L P \<lparr>m_pKey = Some k, m_aAttribs = a\<rparr> None b)"
proof (intro conjI)
  show "''abc'' \<noteq> ''abd''" "''http://x/y'' \<noteq> ''http://x/z''"
    by simp_all
  have abd: "URI_decode ''abd'' = Inr ''abd''"
    by simp
  show "fst (GetProofHeaders L P0 env0 Process_start ''abc'' ''http://x/y'')
       = Inr [(''X-WOPI-TimeStamp'', to_string (DotNetTicks 0)),
              (''X-WOPI-Proof'', BytesToBase64 (RSA_sign L key0 (SHA256 L [])))]"
    by (rule GetProofHeaders_P0_env0 [OF URI_decode_abc])
  show "fst (GetProofHeaders L P0 env0 Process_start ''abd'' ''http://x/y'')
       = Inr [(''X-WOPI-TimeStamp'', to_string (DotNetTicks 0)),
              (''X-WOPI-Proof'', BytesToBase64 (RSA_sign L key0 (SHA256 L [])))]"
    by (rule GetProofHeaders_P0_env0 [OF abd])
  show "fst (GetProofHeaders L P0 env0 Process_start ''abc'' ''http://x/z'')
       = Inr [(''X-WOPI-TimeStamp'', to_string (DotNetTicks 0)),
              (''X-WOPI-Proof'', BytesToBase64 (RSA_sign L key0 (SHA256 L [])))]"
    by (rule GetProofHeaders_P0_env0 [OF URI_decode_abc])
  show "fst (SignProof L P \<lparr>m_pKey = Some k, m_aAttribs = a\<rparr>
            (Some (e\<lparr>e_signature := x # xs\<rparr>)) b)
       = Inr (BytesToBase64 (x # xs))"
    by (simp add: SignProof_def assert_fails_def BytesToBase64_def Let_def
        RSADigestEngine_signature_def RSADigestEngine_update_def split: prod.splits)
  have ok: "engine_ok None"
    by (simp add: engine_ok_def)
  show "fst (SignProof L P \<lparr>m_pKey = Some k, m_aAttribs = a\<rparr>
            (snd (SignProof L P \<lparr>m_pKey = Some k, m_aAttribs = a\<rparr> None b)) b)
       = fst (SignProof L P \<lparr>m_pKey = Some k, m_aAttribs = a\<rparr> None b)"
    by (rule SignProof_twice [OF ok])
qed

text \<open>
  C7. For every sequence of bytes the string of \<open>BytesToBase64\<close> contains neither a
  carriage return nor a line feed, and neither does any string that \<open>SignProof\<close> returns,
  whatever the key, the engine state and the length of the signature.
\<close>

theorem base64_no_line_breaks:
  "CR \<notin> set (BytesToBase64 bytes) \<and> LF \<notin> set (BytesToBase64 bytes)
   \<and> (fst (SignProof L P this eng b) = Inr s \<longrightarrow> CR \<notin> set s \<and> LF \<notin> set s)"
proof (intro conjI impI)
  show "CR \<notin> set (BytesToBase64 bytes)" "LF \<notin> set (BytesToBase64 bytes)"
    by (simp_all add: BytesToBase64_def LineEndingConverter_empty_newline)
next
  assume a: "fst (SignProof L P this eng b) = Inr s"
  have "\<exists>cs. s = LineEndingConverter [] (CHR 0x00) cs"
    using a
    by (cases eng; cases "m_pKey this")
       (auto simp: SignProof_def assert_fails_def Let_def split: prod.splits if_splits)
  then show "CR \<notin> set s" "LF \<notin> set s"
    by (auto simp: LineEndingConverter_empty_newline)
qed

text \<open>
  For 57 bytes the encoder alone writes 76 characters and a CR LF pair; the converter
  leaves the 76.
\<close>

theorem base64_no_line_breaks_witness:
  "\<forall>L. length (Base64Encoder 72 0 (map char_of_byte zeros57)) = 78
     \<and> CR \<in> set (Base64Encoder 72 0 (map char_of_byte zeros57))
     \<and> length (BytesToBase64 zeros57) = 76
     \<and> CR \<notin> set (BytesToBase64 zeros57)
     \<and> LF \<notin> set (BytesToBase64 zeros57)
     \<and> (\<exists>s. fst (SignProof L P0 \<lparr>m_pKey = Some key0, m_aAttribs = []\<rparr> None ''abc'') = Inr s
            \<and> CR \<notin> set s \<and> LF \<notin> set s)"
proof (intro allI conjI)
  fix L
  show "length (Base64Encoder 72 0 (map char_of_byte zeros57)) = 78"
    by code_simp
  show "CR \<in> set (Base64Encoder 72 0 (map char_of_byte zeros57))"
    by code_simp
  show "length (BytesToBase64 zeros57) = 76"
    by code_simp
  show "CR \<notin> set (BytesToBase64 zeros57)" "LF \<notin> set (BytesToBase64 zeros57)"
    using base64_no_line_breaks [where bytes = zeros57] by blast+
  have s: "fst (SignProof L P0 \<lparr>m_pKey = Some key0, m_aAttribs = []\<rparr> None ''abc'')
      = Inr (BytesToBase64 (RSA_sign L key0 (SHA256 L ''abc'')))"
    by (rule SignProof_fresh) simp
  then have "CR \<notin> set (BytesToBase64 (RSA_sign L key0 (SHA256 L ''abc'')))
      \<and> LF \<notin> set (BytesToBase64 (RSA_sign L key0 (SHA256 L ''abc'')))"
    using base64_no_line_breaks
      [where L = L and P = P0 and this = "\<lparr>m_pKey = Some key0, m_aAttribs = []\<rparr>"
         and eng = None and b = "''abc''"
         and s = "BytesToBase64 (RSA_sign L key0 (SHA256 L ''abc''))"]
    by blast
  with s show "\<exists>s. fst (SignProof L P0 \<lparr>m_pKey = Some key0, m_aAttribs = []\<rparr> None ''abc'') = Inr s
            \<and> CR \<notin> set s \<and> LF \<notin> set s"
    by blast
qed

text \<open>
  C8. Nothing is loaded before the first access. The first access constructs the
  \<^verbatim>\<open>Proof\<close> object in the environment it finds: a key if the load returns one, and no key,
  with no exception leaving the constructor, if the load throws a Poco exception, a
  standard exception or anything else. Every later access, whatever environment it finds,
  returns that same object; the key load has been evaluated exactly once. Once the object
  is there, neither \<open>GetProofHeaders\<close> nor \<open>GetProofKeyAttributes\<close> replaces it or loads
  again.
\<close>

theorem key_loaded_once:
  "GetProof_calls P [] Process_start = ([], Process_start)
   \<and> s_proof Process_start = None
   \<and> s_key_loads Process_start = 0
   \<and> fst (GetProof_calls P (env # envs) Process_start)
       = replicate (Suc (length envs)) (fst (Proof_ctor P env))
   \<and> s_key_loads (snd (GetProof_calls P (env # envs) Process_start)) = 1
   \<and> s_proof (snd (GetProof_calls P (env # envs) Process_start)) = Some (fst (Proof_ctor P env))
   \<and> m_pKey (fst (Proof_ctor P env))
       = (case load_RSAKey env of
            Loaded key \<Rightarrow> Some key
          | Throws_Poco_Exception displayText \<Rightarrow> None
          | Throws_std_exception what \<Rightarrow> None
          | Throws_unknown \<Rightarrow> None)
   \<and> (s_proof st = Some p \<longrightarrow>
        GetProof P env' st = (p, st)
        \<and> s_proof (snd (GetProofHeaders L P env' st access_token uri)) = Some p
        \<and> s_key_loads (snd (GetProofHeaders L P env' st access_token uri)) = s_key_loads st
        \<and> snd (GetProofKeyAttributes P env' st) = st)"
proof (intro conjI impI)
  assume c: "s_proof st = Some p"
  show "GetProof P env' st = (p, st)"
    by (rule GetProof_cached [OF c])
  show "s_proof (snd (GetProofHeaders L P env' st access_token uri)) = Some p"
    by (rule GetProofHeaders_keeps_proof(1) [OF c])
  show "s_key_loads (snd (GetProofHeaders L P env' st access_token uri)) = s_key_loads st"
    by (rule GetProofHeaders_keeps_proof(2) [OF c])
  show "snd (GetProofKeyAttributes P env' st) = st"
    by (simp add: GetProofKeyAttributes_keeps_state [OF c])
next
  show "GetProof_calls P [] Process_start = ([], Process_start)"
    by simp
  show "s_proof Process_start = None" "s_key_loads Process_start = 0"
    by (simp_all add: Process_start_def)
  show "fst (GetProof_calls P (env # envs) Process_start)
       = replicate (Suc (length envs)) (fst (Proof_ctor P env))"
    by (simp only: GetProof_calls_start fst_conv)
  show "s_key_loads (snd (GetProof_calls P (env # envs) Process_start)) = 1"
    by (simp only: GetProof_calls_start snd_conv Process.select_convs)
  show "s_proof (snd (GetProof_calls P (env # envs) Process_start))
       = Some (fst (Proof_ctor P env))"
    by (simp only: GetProof_calls_start snd_conv Process.select_convs)
  show "m_pKey (fst (Proof_ctor P env))
       = (case load_RSAKey env of
            Loaded key \<Rightarrow> Some key
          | Throws_Poco_Exception displayText \<Rightarrow> None
          | Throws_std_exception what \<Rightarrow> None
          | Throws_unknown \<Rightarrow> None)"
    by (rule m_pKey_Proof_ctor)
qed

text \<open>
  The key file is missing at the first access and present at the next two: all three
  accesses see no key, and the load ran once.
\<close>

theorem key_loaded_once_witness:
  "fst (GetProof_calls P0 [env_missing, env0, env0] Process_start)
     = [\<lparr>m_pKey = None, m_aAttribs = []\<rparr>, \<lparr>m_pKey = None, m_aAttribs = []\<rparr>,
        \<lparr>m_pKey = None, m_aAttribs = []\<rparr>]
   \<and> s_key_loads (snd (GetProof_calls P0 [env_missing, env0, env0] Process_start)) = 1
   \<and> s_proof (snd (GetProof P0 env_missing Process_start))
       = Some \<lparr>m_pKey = None, m_aAttribs = []\<rparr>
   \<and> (\<forall>L. s_proof (snd (GetProofHeaders L P0 env0 (snd (GetProof P0 env_missing Process_start))
                          ''abc'' ''http://x/y''))
          = Some \<lparr>m_pKey = None, m_aAttribs = []\<rparr>)
   \<and> (\<forall>L. s_key_loads (snd (GetProofHeaders L P0 env0
                          (snd (GetProof P0 env_missing Process_start)) ''abc'' ''http://x/y''))
          = 1)"
proof (intro conjI allI)
  have c: "fst (Proof_ctor P0 env_missing) = \<lparr>m_pKey = None, m_aAttribs = []\<rparr>"
    by code_simp
  have "fst (GetProof_calls P0 [env_missing, env0, env0] Process_start)
       = replicate (Suc (length [env0, env0])) (fst (Proof_ctor P0 env_missing))"
    and l: "s_key_loads (snd (GetProof_calls P0 [env_missing, env0, env0] Process_start)) = 1"
    using key_loaded_once [where P = P0 and env = env_missing and envs = "[env0, env0]"]
    by blast+
  then show "fst (GetProof_calls P0 [env_missing, env0, env0] Process_start)
     = [\<lparr>m_pKey = None, m_aAttribs = []\<rparr>, \<lparr>m_pKey = None, m_aAttribs = []\<rparr>,
        \<lparr>m_pKey = None, m_aAttribs = []\<rparr>]"
    by (simp only: c length_Cons list.size replicate.simps One_nat_def add_Suc_right
        add_0_right simp_thms)
  show "s_key_loads (snd (GetProof_calls P0 [env_missing, env0, env0] Process_start)) = 1"
    by (rule l)
  let ?st = "snd (GetProof P0 env_missing Process_start)"
  show h: "s_proof ?st = Some \<lparr>m_pKey = None, m_aAttribs = []\<rparr>"
    by (simp only: GetProof_first snd_conv Process.select_convs c)
  have k: "s_key_loads ?st = 1"
    by (simp only: GetProof_first snd_conv Process.select_convs)
  show "s_proof (snd (GetProofHeaders L P0 env0 ?st ''abc'' ''http://x/y''))
          = Some \<lparr>m_pKey = None, m_aAttribs = []\<rparr>" for L
    using key_loaded_once
      [where st = ?st and p = "\<lparr>m_pKey = None, m_aAttribs = []\<rparr>" and L = L and P = P0
         and env' = env0 and access_token = "''abc''" and uri = "''http://x/y''"]
      h by blast
  show "s_key_loads (snd (GetProofHeaders L P0 env0 ?st ''abc'' ''http://x/y'')) = 1" for L
    using key_loaded_once
      [where st = ?st and p = "\<lparr>m_pKey = None, m_aAttribs = []\<rparr>" and L = L and P = P0
         and env' = env0 and access_token = "''abc''" and uri = "''http://x/y''"]
      h k by metis
qed

text \<open>
  C9. \<open>GetProofKeyAttributes\<close> returns, on every call of a run, the list that the
  constructor stored at the first call: the three pairs \<^verbatim>\<open>value\<close> (base64 of the blob of
  \<open>RSA2CapiBlob\<close>), \<^verbatim>\<open>modulus\<close> and \<^verbatim>\<open>exponent\<close> (base64 of the bytes as the key gives
  them) when the key was loaded, and the empty list when the load threw.
\<close>

theorem discovery_attributes:
  "fst (GetProofKeyAttributes_calls P (env # envs) Process_start)
     = replicate (Suc (length envs))
         (case load_RSAKey env of
            Loaded key \<Rightarrow>
              [(''value'', BytesToBase64
                  (RSA2CapiBlob (byte_order P) (modulus key) (encryptionExponent key))),
               (''modulus'', BytesToBase64 (modulus key)),
               (''exponent'', BytesToBase64 (encryptionExponent key))]
          | Throws_Poco_Exception displayText \<Rightarrow> []
          | Throws_std_exception what \<Rightarrow> []
          | Throws_unknown \<Rightarrow> [])
   \<and> s_key_loads (snd (GetProofKeyAttributes_calls P (env # envs) Process_start)) = 1"
  by (simp only: GetProofKeyAttributes_calls_start m_aAttribs_Proof_ctor fst_conv snd_conv
      Process.select_convs simp_thms)

theorem discovery_attributes_witness:
  "fst (GetProofKeyAttributes_calls P0 [env0, env_missing] Process_start)
     = [[(''value'', ''BgIAAACkAABSU0ExEAAAAAEAATvF''), (''modulus'', ''xTs=''),
         (''exponent'', ''AQAB'')],
        [(''value'', ''BgIAAACkAABSU0ExEAAAAAEAATvF''), (''modulus'', ''xTs=''),
         (''exponent'', ''AQAB'')]]
   \<and> fst (GetProofKeyAttributes_calls P0 [env_missing, env0] Process_start) = [[], []]"
proof -
  have a: "(case load_RSAKey env0 of
            Loaded key \<Rightarrow>
              [(''value'', BytesToBase64
                  (RSA2CapiBlob (byte_order P0) (modulus key) (encryptionExponent key))),
               (''modulus'', BytesToBase64 (modulus key)),
               (''exponent'', BytesToBase64 (encryptionExponent key))]
          | Throws_Poco_Exception displayText \<Rightarrow> []
          | Throws_std_exception what \<Rightarrow> []
          | Throws_unknown \<Rightarrow> [])
       = [(''value'', ''BgIAAACkAABSU0ExEAAAAAEAATvF''), (''modulus'', ''xTs=''),
          (''exponent'', ''AQAB'')]"
    by code_simp
  have b: "(case load_RSAKey env_missing of
            Loaded key \<Rightarrow>
              [(''value'', BytesToBase64
                  (RSA2CapiBlob (byte_order P0) (modulus key) (encryptionExponent key))),
               (''modulus'', BytesToBase64 (modulus key)),
               (''exponent'', BytesToBase64 (encryptionExponent key))]
          | Throws_Poco_Exception displayText \<Rightarrow> []
          | Throws_std_exception what \<Rightarrow> []
          | Throws_unknown \<Rightarrow> [])
       = []"
    by (simp add: env_missing_def)
  have "fst (GetProofKeyAttributes_calls P0 [env0, env_missing] Process_start)
      = replicate (Suc (length [env_missing]))
          [(''value'', ''BgIAAACkAABSU0ExEAAAAAEAATvF''), (''modulus'', ''xTs=''),
           (''exponent'', ''AQAB'')]"
    using discovery_attributes [where P = P0 and env = env0 and envs = "[env_missing]"]
    unfolding a by blast
  moreover have "fst (GetProofKeyAttributes_calls P0 [env_missing, env0] Process_start)
      = replicate (Suc (length [env0])) []"
    using discovery_attributes [where P = P0 and env = env_missing and envs = "[env0]"]
    unfolding b by blast
  ultimately show ?thesis
    by (simp only: length_Cons list.size replicate.simps One_nat_def add_Suc_right
        add_0_right simp_thms)
qed

text \<open>
  C10. The claim says that the signed bytes contain the URI as given, escapes included.
  \<^verbatim>\<open>Proof::GetProof\<close> applies \<^verbatim>\<open>Poco::URI::decode\<close> to the access token only and does hand
  the URI to the writer as it is: the cells of the buffer hold \<^verbatim>\<open>http://h/a%20b\<close>. But the
  string that is returned and signed is empty (or the assertion fails), so the signed
  bytes contain no form of the URI.
\<close>

theorem GetProof_uri_not_signed:
  "Proof_GetProof P0 ''abc'' ''http://h/a%20b'' 1 = Inr []
   \<and> Proof_GetProof (P0\<lparr>NDEBUG := False\<rparr>) ''abc'' ''http://h/a%20b'' 1 = Inl AssertionFailed
   \<and> those (b_ptr (w_data (GetProof_writer ''abc'' ''http://h/a%20b'' 1)))
       = Some ([CHR 0x00, CHR 0x00, CHR 0x00, CHR 0x03, CHR 0x03] @ ''abc''
               @ [CHR 0x00, CHR 0x00, CHR 0x00, CHR 0x0E, CHR 0x0E] @ ''http://h/a%20b''
               @ [CHR 0x00, CHR 0x00, CHR 0x00, CHR 0x08,
                  CHR 0x00, CHR 0x00, CHR 0x00, CHR 0x00, CHR 0x00, CHR 0x00])
   \<and> (\<forall>L. fst (GetProofHeaders L P0 env0 Process_start ''abc'' ''http://h/a%20b'')
          = Inr [(''X-WOPI-TimeStamp'', to_string (DotNetTicks 0)),
                 (''X-WOPI-Proof'', BytesToBase64 (RSA_sign L key0 (SHA256 L [])))])"
proof (intro conjI allI)
  show "Proof_GetProof P0 ''abc'' ''http://h/a%20b'' 1 = Inr []"
    by (rule Proof_GetProof_P0 [OF URI_decode_abc])
  show "Proof_GetProof (P0\<lparr>NDEBUG := False\<rparr>) ''abc'' ''http://h/a%20b'' 1 = Inl AssertionFailed"
    by (simp add: Proof_GetProof_decoded [OF URI_decode_abc])
  show "those (b_ptr (w_data (GetProof_writer ''abc'' ''http://h/a%20b'' 1)))
       = Some ([CHR 0x00, CHR 0x00, CHR 0x00, CHR 0x03, CHR 0x03] @ ''abc''
               @ [CHR 0x00, CHR 0x00, CHR 0x00, CHR 0x0E, CHR 0x0E] @ ''http://h/a%20b''
               @ [CHR 0x00, CHR 0x00, CHR 0x00, CHR 0x08,
                  CHR 0x00, CHR 0x00, CHR 0x00, CHR 0x00, CHR 0x00, CHR 0x00])"
    by code_simp
  show "fst (GetProofHeaders L P0 env0 Process_start ''abc'' ''http://h/a%20b'')
          = Inr [(''X-WOPI-TimeStamp'', to_string (DotNetTicks 0)),
                 (''X-WOPI-Proof'', BytesToBase64 (RSA_sign L key0 (SHA256 L [])))]" for L
    by (rule GetProofHeaders_P0_env0 [OF URI_decode_abc])
qed

end
